theory Spec2Isabelle
  imports Main "HOL-Library.Word" "HOL-Library.Signed_Division"
begin

section \<open>Beeflang: a shallow embedding of the tree-walking evaluator\<close>

text \<open>
  The development follows \<^verbatim>\<open>internal/evaluator\<close> (the file holding \<^verbatim>\<open>Eval\<close>) and the
  interpreter's \<^verbatim>\<open>main\<close>. Go pointers are addresses (natural numbers), the heap of
  environments is a list indexed by environment reference, and every Go function that
  allocates, prints or reads takes the interpreter state and returns the new one.
  A Go function can return, panic, or run forever; the last is modelled with fuel.
\<close>

subsection \<open>Tokens and the syntax tree\<close>

text \<open>
  \<^verbatim>\<open>token.Token\<close> carries a category, its literal text and the 1-based line and column.
  The evaluator reads only \<^verbatim>\<open>Line\<close> and \<^verbatim>\<open>Column\<close> (in \<^verbatim>\<open>newError\<close>).
\<close>

record token =
  Literal :: string
  Line :: int
  Column :: int

type_synonym int64 = "64 word"

text \<open>
  Modelled from the spec: the \<^verbatim>\<open>ast\<close> package is not part of the sources at hand. The
  node kinds are those of the specification's data model (expression variants and
  statement variants), with the fields the evaluator reads: \<^verbatim>\<open>n.Token\<close> where
  \<^verbatim>\<open>newError\<close> receives it, \<^verbatim>\<open>Name.Value\<close>, \<^verbatim>\<open>Member.Value\<close> and
  \<^verbatim>\<open>ModuleName.Value\<close> as plain strings, a block as the list of its statements, and the
  optional \<^verbatim>\<open>Alternative\<close> of an if statement as an option (\<^verbatim>\<open>nil\<close> is \<open>None\<close>).
\<close>

datatype expr =
    Identifier token string
  | IntegerLiteral int64
  | BooleanLiteral bool
  | StringLiteral string
  | PrefixExpression token string expr
  | InfixExpression token expr string expr
  | FunctionCall token expr "expr list"
  | MemberAccessExpression expr string

datatype stmt =
    VariableDeclaration string expr
  | AssignmentStatement string expr
  | BlockStatement "stmt list"
  | IfStatement expr "stmt list" "stmt list option"
  | WhileLoop expr "stmt list"
  | FunctionDeclaration string "string list" "stmt list"
  | ReturnStatement expr
  | WrangleStatement string
  | ExpressionStatement expr

subsection \<open>Runtime objects\<close>

text \<open>
  An \<^verbatim>\<open>object.Object\<close> is an interface value holding a pointer, or \<^verbatim>\<open>nil\<close>. Every
  object below carries the address it was allocated at; the objects themselves are never
  mutated after their creation (a module's members are all set by \<^verbatim>\<open>createIOModule\<close>
  before the module is handed out), so the pointed-to fields travel with the address.
  A function value holds its parameter names, its body and a reference to the environment
  it captured. The two native routines of the I/O module are named, not embedded.
\<close>

type_synonym addr = nat
type_synonym env_ref = nat

datatype builtin_fn = Preach | Input

datatype object =
    Nil
  | Integer addr int64
  | Boolean addr bool
  | String addr string
  | Null addr
  | Function addr "string list" "stmt list" env_ref
  | Builtin addr builtin_fn
  | Module addr string "(string \<times> object) list"
  | ReturnValue addr object
  | Error addr string int int string

text \<open>The three process-wide singletons \<^verbatim>\<open>object.TRUE\<close>, \<^verbatim>\<open>object.FALSE\<close>, \<^verbatim>\<open>object.NULL\<close>.\<close>

definition TRUE :: object where "TRUE = Boolean 0 True"
definition FALSE :: object where "FALSE = Boolean 1 False"
definition NULL :: object where "NULL = Null 2"

datatype kind = KInteger | KBoolean | KString | KNull | KFunction | KBuiltin | KModule
  | KReturnValue | KError

fun kind_of :: "object \<Rightarrow> kind option" where
  "kind_of Nil = None"
| "kind_of (Integer a v) = Some KInteger"
| "kind_of (Boolean a b) = Some KBoolean"
| "kind_of (String a s) = Some KString"
| "kind_of (Null a) = Some KNull"
| "kind_of (Function a ps body e) = Some KFunction"
| "kind_of (Builtin a f) = Some KBuiltin"
| "kind_of (Module a n ms) = Some KModule"
| "kind_of (ReturnValue a v) = Some KReturnValue"
| "kind_of (Error a m l c f) = Some KError"

fun addr_of :: "object \<Rightarrow> addr option" where
  "addr_of Nil = None"
| "addr_of (Integer a v) = Some a"
| "addr_of (Boolean a b) = Some a"
| "addr_of (String a s) = Some a"
| "addr_of (Null a) = Some a"
| "addr_of (Function a ps body e) = Some a"
| "addr_of (Builtin a f) = Some a"
| "addr_of (Module a n ms) = Some a"
| "addr_of (ReturnValue a v) = Some a"
| "addr_of (Error a m l c f) = Some a"

text \<open>
  Go's \<^verbatim>\<open>==\<close> on two interface values: equal dynamic types and equal pointers
  (two \<^verbatim>\<open>nil\<close> interfaces are equal). The contents play no part.
\<close>

definition ref_eq :: "object \<Rightarrow> object \<Rightarrow> bool" where
  "ref_eq x y = (kind_of x = kind_of y \<and> addr_of x = addr_of y)"

text \<open>
  \<^verbatim>\<open>Type()\<close>. The names of integers, booleans, strings, null and errors are those of the
  object tests and of the error type; \<^verbatim>\<open>RETURN_VALUE\<close> is the name the evaluator compares
  with. Modelled from the spec: the names of functions, builtins and modules are not in the
  sources at hand; they are taken as the upper-case kind names, like the others.
  Calling \<^verbatim>\<open>Type()\<close> on a \<^verbatim>\<open>nil\<close> interface panics: \<open>None\<close>.
\<close>

fun Type :: "object \<Rightarrow> string option" where
  "Type Nil = None"
| "Type (Integer a v) = Some ''INTEGER''"
| "Type (Boolean a b) = Some ''BOOLEAN''"
| "Type (String a s) = Some ''STRING''"
| "Type (Null a) = Some ''NULL''"
| "Type (Function a ps body e) = Some ''FUNCTION''"
| "Type (Builtin a f) = Some ''BUILTIN''"
| "Type (Module a n ms) = Some ''MODULE''"
| "Type (ReturnValue a v) = Some ''RETURN_VALUE''"
| "Type (Error a m l c f) = Some ''ERROR''"

subsection \<open>Environments and the interpreter state\<close>

text \<open>
  Modelled from the spec: the \<^verbatim>\<open>object.Environment\<close> type is not part of the sources at
  hand. An environment is a mapping from identifier to value plus an optional reference to
  an enclosing environment. Lookup walks outward until found or exhausted. \<^verbatim>\<open>Set\<close>
  rebinds in the innermost scope where the name already exists if it exists anywhere in
  the chain, and creates it in the current scope otherwise.

  Environments are shared and mutated, so they live in a heap: a list indexed by
  environment reference. A new environment is appended, hence an enclosing environment
  always has a smaller reference than the one it encloses, and chains have no cycles; the
  walk below stops at a reference that is not smaller (none exists in a heap built by
  \<open>NewEnvironment\<close> and \<open>NewEnclosedEnvironment\<close>).
\<close>

record environment =
  store :: "(string \<times> object) list"
  outer :: "env_ref option"

datatype out_event = PrintLine string | PrintlnInspect object | PrintInspect object

record state =
  envs :: "environment list"
  next_addr :: addr
  stdout :: "out_event list"
  stdin :: "string list"

function Get :: "environment list \<Rightarrow> env_ref \<Rightarrow> string \<Rightarrow> object option" where
  "Get es e name =
     (if e < length es then
        (case map_of (store (es ! e)) name of
           Some v \<Rightarrow> Some v
         | None \<Rightarrow>
            (case outer (es ! e) of
               None \<Rightarrow> None
             | Some p \<Rightarrow> if p < e then Get es p name else None))
      else None)"
  by pat_completeness auto
termination
  by (relation "measure (\<lambda>(es, e, name). e)") auto

function find_scope :: "environment list \<Rightarrow> env_ref \<Rightarrow> string \<Rightarrow> env_ref option" where
  "find_scope es e name =
     (if e < length es then
        (case map_of (store (es ! e)) name of
           Some v \<Rightarrow> Some e
         | None \<Rightarrow>
            (case outer (es ! e) of
               None \<Rightarrow> None
             | Some p \<Rightarrow> if p < e then find_scope es p name else None))
      else None)"
  by pat_completeness auto
termination
  by (relation "measure (\<lambda>(es, e, name). e)") auto

fun put :: "string \<Rightarrow> object \<Rightarrow> (string \<times> object) list \<Rightarrow> (string \<times> object) list" where
  "put k v [] = [(k, v)]"
| "put k v ((k', v') # kvs) = (if k = k' then (k, v) # kvs else (k', v') # put k v kvs)"

definition bind_in :: "env_ref \<Rightarrow> string \<Rightarrow> object \<Rightarrow> state \<Rightarrow> state" where
  "bind_in e name v st =
     (if e < length (envs st)
      then st\<lparr>envs := (envs st)[e := (envs st ! e)\<lparr>store := put name v (store (envs st ! e))\<rparr>]\<rparr>
      else st)"

definition Set :: "env_ref \<Rightarrow> string \<Rightarrow> object \<Rightarrow> state \<Rightarrow> state" where
  "Set e name v st =
     (case find_scope (envs st) e name of
        Some e' \<Rightarrow> bind_in e' name v st
      | None \<Rightarrow> bind_in e name v st)"

definition NewEnvironment :: "state \<Rightarrow> env_ref \<times> state" where
  "NewEnvironment st =
     (length (envs st), st\<lparr>envs := envs st @ [\<lparr>store = [], outer = None\<rparr>]\<rparr>)"

definition NewEnclosedEnvironment :: "env_ref \<Rightarrow> state \<Rightarrow> env_ref \<times> state" where
  "NewEnclosedEnvironment parent st =
     (length (envs st), st\<lparr>envs := envs st @ [\<lparr>store = [], outer = Some parent\<rparr>]\<rparr>)"

text \<open>Allocation of an object: the next free address.\<close>

definition new_addr :: "state \<Rightarrow> addr \<times> state" where
  "new_addr st = (next_addr st, st\<lparr>next_addr := Suc (next_addr st)\<rparr>)"

text \<open>
  The state a process starts in: no environment yet, the first free address after the three
  singletons, nothing printed, and what the reads of standard input will return.
\<close>

definition init_state :: "string list \<Rightarrow> state" where
  "init_state inp = \<lparr>envs = [], next_addr = 3, stdout = [], stdin = inp\<rparr>"

subsection \<open>Results of a Go call\<close>

text \<open>
  A call returns a value, panics (the run-time errors of Go: a method call on a \<^verbatim>\<open>nil\<close>
  interface, an index out of range, an integer division by zero), or has not returned when
  the fuel is used up.
\<close>

datatype 'a result = OutOfFuel | Panic string | Done 'a

fun bind_res :: "'a result \<Rightarrow> ('a \<Rightarrow> 'b result) \<Rightarrow> 'b result" where
  "bind_res OutOfFuel f = OutOfFuel"
| "bind_res (Panic m) f = Panic m"
| "bind_res (Done x) f = f x"

definition nil_deref :: string where
  "nil_deref = ''invalid memory address or nil pointer dereference''"

definition index_out_of_range :: string where
  "index_out_of_range = ''index out of range''"

definition divide_by_zero :: string where
  "divide_by_zero = ''integer divide by zero''"

subsection \<open>The helpers of the evaluator\<close>

definition newError :: "token \<Rightarrow> string \<Rightarrow> state \<Rightarrow> object \<times> state" where
  "newError tok msg st = (let (a, st1) = new_addr st in (Error a msg (Line tok) (Column tok) [], st1))"

definition isError :: "object \<Rightarrow> bool" where
  "isError obj = (if obj \<noteq> Nil then Type obj = Some ''ERROR'' else False)"

definition nativeBoolToBooleanObject :: "bool \<Rightarrow> object" where
  "nativeBoolToBooleanObject input = (if input then TRUE else FALSE)"

definition evalIdentifier :: "token \<Rightarrow> string \<Rightarrow> env_ref \<Rightarrow> state \<Rightarrow> object \<times> state" where
  "evalIdentifier tok name env st =
     (case Get (envs st) env name of
        None \<Rightarrow> newError tok (''identifier not found: '' @ name) st
      | Some val \<Rightarrow> (val, st))"

definition evalBangOperator :: "object \<Rightarrow> object" where
  "evalBangOperator right =
     (if ref_eq right TRUE then FALSE
      else if ref_eq right FALSE then TRUE
      else if ref_eq right NULL then TRUE
      else FALSE)"

definition isTruthy :: "object \<Rightarrow> bool" where
  "isTruthy obj =
     (if ref_eq obj NULL then False
      else if ref_eq obj FALSE then False
      else if ref_eq obj TRUE then True
      else True)"

definition evalMinusPrefixOperator :: "token \<Rightarrow> object \<Rightarrow> state \<Rightarrow> (object \<times> state) result" where
  "evalMinusPrefixOperator tok right st =
     (case Type right of
        None \<Rightarrow> Panic nil_deref
      | Some t \<Rightarrow>
          if t \<noteq> ''INTEGER'' then Done (newError tok (''unknown operator: -'' @ t) st)
          else (case right of
                  Integer a v \<Rightarrow> (let (a', st1) = new_addr st in Done (Integer a' (- v), st1))
                | _ \<Rightarrow> Panic ''interface conversion''))"

definition evalPrefixExpression ::
  "token \<Rightarrow> string \<Rightarrow> object \<Rightarrow> state \<Rightarrow> (object \<times> state) result" where
  "evalPrefixExpression tok operator right st =
     (if operator = ''!'' then Done (evalBangOperator right, st)
      else if operator = ''-'' then evalMinusPrefixOperator tok right st
      else (case Type right of
              None \<Rightarrow> Panic nil_deref
            | Some t \<Rightarrow> Done (newError tok (''unknown operator: '' @ operator @ t) st)))"

text \<open>
  Go's \<^verbatim>\<open>/\<close> and \<^verbatim>\<open>%\<close> on \<^verbatim>\<open>int64\<close> truncate towards zero and wrap around
  (the most negative value divided by \<open>-1\<close> is itself); a zero divisor panics, which the
  caller checks. The other operators are those of \<^typ>\<open>64 word\<close>, the comparisons signed.
\<close>

definition int64_quo :: "int64 \<Rightarrow> int64 \<Rightarrow> int64" where
  "int64_quo a b = word_of_int (sint a sdiv sint b)"

definition int64_rem :: "int64 \<Rightarrow> int64 \<Rightarrow> int64" where
  "int64_rem a b = word_of_int (sint a smod sint b)"

definition new_Integer :: "int64 \<Rightarrow> state \<Rightarrow> (object \<times> state) result" where
  "new_Integer v st = (let (a, st1) = new_addr st in Done (Integer a v, st1))"

definition new_String :: "string \<Rightarrow> state \<Rightarrow> (object \<times> state) result" where
  "new_String v st = (let (a, st1) = new_addr st in Done (String a v, st1))"

definition unknown_operator :: "object \<Rightarrow> string \<Rightarrow> object \<Rightarrow> string" where
  "unknown_operator left operator right =
     ''unknown operator: '' @ the (Type left) @ '' '' @ operator @ '' '' @ the (Type right)"

definition evalIntegerInfixExpression ::
  "token \<Rightarrow> string \<Rightarrow> object \<Rightarrow> object \<Rightarrow> state \<Rightarrow> (object \<times> state) result" where
  "evalIntegerInfixExpression tok operator left right st =
     (case left of
        Integer la leftVal \<Rightarrow>
          (case right of
             Integer ra rightVal \<Rightarrow>
               if operator = ''+'' then new_Integer (leftVal + rightVal) st
               else if operator = ''-'' then new_Integer (leftVal - rightVal) st
               else if operator = ''*'' then new_Integer (leftVal * rightVal) st
               else if operator = ''/'' then
                 (if rightVal = 0 then Panic divide_by_zero
                  else new_Integer (int64_quo leftVal rightVal) st)
               else if operator = ''%'' then
                 (if rightVal = 0 then Panic divide_by_zero
                  else new_Integer (int64_rem leftVal rightVal) st)
               else if operator = ''<'' then
                 Done (nativeBoolToBooleanObject (word_sless leftVal rightVal), st)
               else if operator = ''>'' then
                 Done (nativeBoolToBooleanObject (word_sless rightVal leftVal), st)
               else if operator = ''=='' then
                 Done (nativeBoolToBooleanObject (leftVal = rightVal), st)
               else if operator = ''!='' then
                 Done (nativeBoolToBooleanObject (leftVal \<noteq> rightVal), st)
               else if operator = ''<='' then
                 Done (nativeBoolToBooleanObject (word_sle leftVal rightVal), st)
               else if operator = ''>='' then
                 Done (nativeBoolToBooleanObject (word_sle rightVal leftVal), st)
               else Done (newError tok (unknown_operator left operator right) st)
           | _ \<Rightarrow> Panic ''interface conversion'')
      | _ \<Rightarrow> Panic ''interface conversion'')"

definition evalStringInfixExpression ::
  "token \<Rightarrow> string \<Rightarrow> object \<Rightarrow> object \<Rightarrow> state \<Rightarrow> (object \<times> state) result" where
  "evalStringInfixExpression tok operator left right st =
     (case left of
        String la leftVal \<Rightarrow>
          (case right of
             String ra rightVal \<Rightarrow>
               if operator = ''+'' then new_String (leftVal @ rightVal) st
               else if operator = ''=='' then
                 Done (nativeBoolToBooleanObject (leftVal = rightVal), st)
               else if operator = ''!='' then
                 Done (nativeBoolToBooleanObject (leftVal \<noteq> rightVal), st)
               else Done (newError tok (unknown_operator left operator right) st)
           | _ \<Rightarrow> Panic ''interface conversion'')
      | _ \<Rightarrow> Panic ''interface conversion'')"

text \<open>
  The \<^verbatim>\<open>switch\<close> of \<^verbatim>\<open>evalInfixExpression\<close> tests its cases in order; \<^verbatim>\<open>&&\<close> calls
  \<^verbatim>\<open>right.Type()\<close> only when the left test holds, and each \<^verbatim>\<open>Type()\<close> call on
  \<^verbatim>\<open>nil\<close> panics.
\<close>

definition evalInfixExpression ::
  "token \<Rightarrow> string \<Rightarrow> object \<Rightarrow> object \<Rightarrow> state \<Rightarrow> (object \<times> state) result" where
  "evalInfixExpression tok operator left right st =
     (case Type left of
        None \<Rightarrow> Panic nil_deref
      | Some lt \<Rightarrow>
          if lt = ''INTEGER'' \<and> Type right = None then Panic nil_deref
          else if lt = ''INTEGER'' \<and> Type right = Some ''INTEGER''
            then evalIntegerInfixExpression tok operator left right st
          else if lt = ''STRING'' \<and> Type right = None then Panic nil_deref
          else if lt = ''STRING'' \<and> Type right = Some ''STRING''
            then evalStringInfixExpression tok operator left right st
          else if operator = ''=='' then Done (nativeBoolToBooleanObject (ref_eq left right), st)
          else if operator = ''!='' then Done (nativeBoolToBooleanObject (\<not> ref_eq left right), st)
          else (case Type right of
                  None \<Rightarrow> Panic nil_deref
                | Some rt \<Rightarrow>
                    if lt \<noteq> rt
                    then Done (newError tok
                           (''type mismatch: '' @ lt @ '' '' @ operator @ '' '' @ rt) st)
                    else Done (newError tok
                           (''unknown operator: '' @ lt @ '' '' @ operator @ '' '' @ rt) st)))"

subsection \<open>Modules and the native routines\<close>

text \<open>
  \<^verbatim>\<open>preach\<close> prints the \<^verbatim>\<open>Inspect()\<close> text of each argument on a line of its own;
  \<^verbatim>\<open>input\<close> prints the text of its first argument, if any, and reads a line (the empty
  string at the end of the input). The \<^verbatim>\<open>Inspect\<close> methods are not in the sources at hand:
  the output records which object was rendered rather than its text.
  \<^verbatim>\<open>Inspect()\<close> on \<^verbatim>\<open>nil\<close> panics.

  Every call of \<^verbatim>\<open>input\<close> builds a new \<^verbatim>\<open>bufio.Scanner\<close> on standard input and scans
  one line with it. The scanner reads ahead: it takes whole reads from the file until its
  buffer holds a newline or the input ends, returns the first line without its line end
  (a carriage return before it is dropped too), and whatever else it has read is lost with
  the scanner. Standard input is therefore the list of the byte strings that the successive
  reads return: a terminal delivers one line per read, a pipe or a file whatever is there.
  Each read is taken to fit the scanner's buffer and each line to stay below its limit.
\<close>

definition dropCR :: "string \<Rightarrow> string" where
  "dropCR data = (if data \<noteq> [] \<and> last data = CHR 0x0D then butlast data else data)"

definition first_line :: "string \<Rightarrow> string" where
  "first_line buf = dropCR (takeWhile (\<lambda>c. c \<noteq> CHR 0x0A) buf)"

fun scan_line :: "string \<Rightarrow> string list \<Rightarrow> string \<times> string list" where
  "scan_line buf [] = (first_line buf, [])"
| "scan_line buf (chunk # chunks) =
     (if CHR 0x0A \<in> set buf then (first_line buf, chunk # chunks)
      else scan_line (buf @ chunk) chunks)"

fun preach :: "object list \<Rightarrow> state \<Rightarrow> (object \<times> state) result" where
  "preach [] st = Done (NULL, st)"
| "preach (arg # args) st =
     (if arg = Nil then Panic nil_deref
      else preach args (st\<lparr>stdout := stdout st @ [PrintlnInspect arg]\<rparr>))"

definition read_line :: "state \<Rightarrow> (object \<times> state) result" where
  "read_line st =
     (let (line, unread) = scan_line [] (stdin st) in new_String line (st\<lparr>stdin := unread\<rparr>))"

definition input :: "object list \<Rightarrow> state \<Rightarrow> (object \<times> state) result" where
  "input args st =
     (if length args > 0 then
        (if args ! 0 = Nil then Panic nil_deref
         else read_line (st\<lparr>stdout := stdout st @ [PrintInspect (args ! 0)]\<rparr>))
      else read_line st)"

fun call_builtin :: "builtin_fn \<Rightarrow> object list \<Rightarrow> state \<Rightarrow> (object \<times> state) result" where
  "call_builtin Preach args st = preach args st"
| "call_builtin Input args st = input args st"

definition createIOModule :: "state \<Rightarrow> object \<times> state" where
  "createIOModule st =
     (let (m, st1) = new_addr st;
          (p, st2) = new_addr st1;
          (i, st3) = new_addr st2
      in (Module m ''io'' [(''preach'', Builtin p Preach), (''input'', Builtin i Input)], st3))"

definition loadModule :: "string \<Rightarrow> state \<Rightarrow> object \<times> state" where
  "loadModule name st =
     (if name = ''io'' then createIOModule st
      else (let (m, st1) = new_addr st in (Module m name [], st1)))"

text \<open>
  The loop of \<^verbatim>\<open>evalFunctionCall\<close> that binds parameter \<open>i\<close> to \<^verbatim>\<open>args[i]\<close>; the index
  expression panics when \<open>i\<close> is not below the number of arguments.
\<close>

fun bind_parameters ::
  "string list \<Rightarrow> nat \<Rightarrow> object list \<Rightarrow> env_ref \<Rightarrow> state \<Rightarrow> state result" where
  "bind_parameters [] i args fnEnv st = Done st"
| "bind_parameters (param # params) i args fnEnv st =
     (if i < length args
      then bind_parameters params (Suc i) args fnEnv (Set fnEnv param (args ! i) st)
      else Panic index_out_of_range)"

subsection \<open>Eval\<close>

text \<open>
  \<^verbatim>\<open>Eval\<close> switches on the node's type; with expressions and statements as two datatypes
  it is \<open>Eval_expr\<close> and \<open>Eval_stmt\<close>, and the \<^verbatim>\<open>*ast.Program\<close> case is
  \<open>evalProgram\<close> below. The \<^verbatim>\<open>for\<close> loops of \<^verbatim>\<open>evalProgram\<close>,
  \<^verbatim>\<open>evalBlockStatement\<close>, \<^verbatim>\<open>evalExpressions\<close> and \<^verbatim>\<open>evalWhileLoop\<close> carry their
  local variable \<^verbatim>\<open>result\<close> as an argument. Every call of \<^verbatim>\<open>Eval\<close> and every turn of
  a loop takes one unit of fuel.
\<close>

function (sequential) Eval_expr :: "nat \<Rightarrow> expr \<Rightarrow> env_ref \<Rightarrow> state \<Rightarrow> (object \<times> state) result"
and Eval_stmt :: "nat \<Rightarrow> stmt \<Rightarrow> env_ref \<Rightarrow> state \<Rightarrow> (object \<times> state) result"
and evalExpressions ::
  "nat \<Rightarrow> expr list \<Rightarrow> env_ref \<Rightarrow> object list \<Rightarrow> state \<Rightarrow> (object list \<times> state) result"
and evalBlockStatement ::
  "nat \<Rightarrow> stmt list \<Rightarrow> env_ref \<Rightarrow> object \<Rightarrow> state \<Rightarrow> (object \<times> state) result"
and evalWhileLoop ::
  "nat \<Rightarrow> expr \<Rightarrow> stmt list \<Rightarrow> env_ref \<Rightarrow> object \<Rightarrow> state \<Rightarrow> (object \<times> state) result"
where
  "Eval_expr 0 e env st = OutOfFuel"
| "Eval_expr (Suc n) (IntegerLiteral v) env st = new_Integer v st"
| "Eval_expr (Suc n) (BooleanLiteral b) env st = Done (nativeBoolToBooleanObject b, st)"
| "Eval_expr (Suc n) (StringLiteral s) env st = new_String s st"
| "Eval_expr (Suc n) (Identifier tok name) env st = Done (evalIdentifier tok name env st)"
| "Eval_expr (Suc n) (PrefixExpression tok operator r) env st =
     bind_res (Eval_expr n r env st) (\<lambda>(right, st1).
       if isError right then Done (right, st1)
       else evalPrefixExpression tok operator right st1)"
| "Eval_expr (Suc n) (InfixExpression tok l operator r) env st =
     bind_res (Eval_expr n l env st) (\<lambda>(left, st1).
       if isError left then Done (left, st1)
       else bind_res (Eval_expr n r env st1) (\<lambda>(right, st2).
         if isError right then Done (right, st2)
         else evalInfixExpression tok operator left right st2))"
| "Eval_expr (Suc n) (FunctionCall tok f arguments) env st =
     bind_res (Eval_expr n f env st) (\<lambda>(function, st1).
       if isError function then Done (function, st1)
       else bind_res (evalExpressions n arguments env [] st1) (\<lambda>(args, st2).
         if length args = 1 \<and> isError (args ! 0) then Done (args ! 0, st2)
         else (case function of
                 Builtin a fn \<Rightarrow> call_builtin fn args st2
               | Function a parameters body fenv \<Rightarrow>
                   (let (fnEnv, st3) = NewEnclosedEnvironment fenv st2 in
                    bind_res (bind_parameters parameters 0 args fnEnv st3) (\<lambda>st4.
                      bind_res (Eval_stmt n (BlockStatement body) fnEnv st4) (\<lambda>(result, st5).
                        if isError result then Done (result, st5)
                        else (case result of
                                ReturnValue ra v \<Rightarrow> Done (v, st5)
                              | _ \<Rightarrow> Done (NULL, st5)))))
               | Nil \<Rightarrow> Panic nil_deref
               | _ \<Rightarrow> Done (newError tok (''not a function: '' @ the (Type function)) st2))))"
| "Eval_expr (Suc n) (MemberAccessExpression ob member) env st =
     bind_res (Eval_expr n ob env st) (\<lambda>(obj, st1).
       case obj of
         Module a name members \<Rightarrow>
           (case map_of members member of
              None \<Rightarrow> Done (NULL, st1)
            | Some m \<Rightarrow> Done (m, st1))
       | _ \<Rightarrow> Done (NULL, st1))"
| "Eval_stmt 0 s env st = OutOfFuel"
| "Eval_stmt (Suc n) (VariableDeclaration name v) env st =
     bind_res (Eval_expr n v env st) (\<lambda>(val, st1). Done (val, Set env name val st1))"
| "Eval_stmt (Suc n) (AssignmentStatement name v) env st =
     bind_res (Eval_expr n v env st) (\<lambda>(val, st1). Done (val, Set env name val st1))"
| "Eval_stmt (Suc n) (BlockStatement statements) env st =
     evalBlockStatement n statements env Nil st"
| "Eval_stmt (Suc n) (IfStatement cond consequence alternative) env st =
     bind_res (Eval_expr n cond env st) (\<lambda>(condition, st1).
       if isTruthy condition then Eval_stmt n (BlockStatement consequence) env st1
       else (case alternative of
               Some alt \<Rightarrow> Eval_stmt n (BlockStatement alt) env st1
             | None \<Rightarrow> Done (NULL, st1)))"
| "Eval_stmt (Suc n) (WhileLoop cond body) env st = evalWhileLoop n cond body env NULL st"
| "Eval_stmt (Suc n) (FunctionDeclaration name parameters body) env st =
     (let (a, st1) = new_addr st;
          function = Function a parameters body env
      in Done (function, Set env name function st1))"
| "Eval_stmt (Suc n) (ReturnStatement v) env st =
     bind_res (Eval_expr n v env st) (\<lambda>(val, st1).
       let (a, st2) = new_addr st1 in Done (ReturnValue a val, st2))"
| "Eval_stmt (Suc n) (WrangleStatement moduleName) env st =
     (let (module, st1) = loadModule moduleName st in Done (module, Set env moduleName module st1))"
| "Eval_stmt (Suc n) (ExpressionStatement e) env st = Eval_expr n e env st"
| "evalExpressions n [] env result st = Done (result, st)"
| "evalExpressions 0 (exp # exps) env result st = OutOfFuel"
| "evalExpressions (Suc n) (exp # exps) env result st =
     bind_res (Eval_expr n exp env st) (\<lambda>(evaluated, st1).
       evalExpressions n exps env (result @ [evaluated]) st1)"
| "evalBlockStatement n [] env result st = Done (result, st)"
| "evalBlockStatement 0 (statement # statements) env result st = OutOfFuel"
| "evalBlockStatement (Suc n) (statement # statements) env result st =
     bind_res (Eval_stmt n statement env st) (\<lambda>(result', st1).
       if isError result' then Done (result', st1)
       else if result' \<noteq> Nil \<and> Type result' = Some ''RETURN_VALUE'' then Done (result', st1)
       else evalBlockStatement n statements env result' st1)"
| "evalWhileLoop 0 cond body env result st = OutOfFuel"
| "evalWhileLoop (Suc n) cond body env result st =
     bind_res (Eval_expr n cond env st) (\<lambda>(condition, st1).
       if \<not> isTruthy condition then Done (result, st1)
       else bind_res (Eval_stmt n (BlockStatement body) env st1) (\<lambda>(result', st2).
         if result' \<noteq> Nil \<and> Type result' = Some ''RETURN_VALUE'' then Done (result', st2)
         else evalWhileLoop n cond body env result' st2))"
  by pat_completeness auto

termination
  by (relation "measure (\<lambda>x. case x of
        Inl (Inl (n, _)) \<Rightarrow> n
      | Inl (Inr (n, _)) \<Rightarrow> n
      | Inr (Inl (n, _)) \<Rightarrow> n
      | Inr (Inr (Inl (n, _))) \<Rightarrow> n
      | Inr (Inr (Inr (n, _))) \<Rightarrow> n)") simp_all

text \<open>\<^verbatim>\<open>evalProgram\<close>: like a block, but a return value is unwrapped.\<close>

fun evalProgram ::
  "nat \<Rightarrow> stmt list \<Rightarrow> env_ref \<Rightarrow> object \<Rightarrow> state \<Rightarrow> (object \<times> state) result" where
  "evalProgram n [] env result st = Done (result, st)"
| "evalProgram n (statement # statements) env result st =
     bind_res (Eval_stmt n statement env st) (\<lambda>(result', st1).
       if isError result' then Done (result', st1)
       else (case result' of
               ReturnValue a v \<Rightarrow> Done (v, st1)
             | _ \<Rightarrow> evalProgram n statements env result' st1))"

subsection \<open>The entry point\<close>

text \<open>
  \<^verbatim>\<open>main\<close> in interpreter mode, from the parsed program on: the lexer and the parser
  are not in the sources at hand, so the parser's error list and the program it built are
  arguments. A process ends with an exit status and what it printed (\<^verbatim>\<open>main\<close> prints
  to standard output only), is killed by a panic (Go exits with status 2; what was printed
  before is not kept), or is still running when the fuel is used up.
\<close>

datatype process_end = Exit nat "out_event list" | Killed string | Running

definition main :: "nat \<Rightarrow> string list \<Rightarrow> stmt list \<Rightarrow> string list \<Rightarrow> process_end" where
  "main fuel parser_errors program inp =
     (if length parser_errors > 0
      then Exit 1 (PrintLine ''Parser errors:'' # map (\<lambda>msg. PrintLine (''  '' @ msg)) parser_errors)
      else
        (let (env, st0) = NewEnvironment (init_state inp) in
         case evalProgram fuel program env Nil st0 of
           OutOfFuel \<Rightarrow> Running
         | Panic m \<Rightarrow> Killed m
         | Done (ignored, st1) \<Rightarrow>
            (case Get (envs st1) env ''ChurchOfBeef'' of
               Some entryPoint \<Rightarrow>
                 (case entryPoint of
                    Function a parameters body fenv \<Rightarrow>
                      (let (entryEnv, st2) = NewEnclosedEnvironment fenv st1 in
                       case Eval_stmt fuel (BlockStatement body) entryEnv st2 of
                         OutOfFuel \<Rightarrow> Running
                       | Panic m \<Rightarrow> Killed m
                       | Done (ignored', st3) \<Rightarrow> Exit 0 (stdout st3))
                  | _ \<Rightarrow> Exit 1 (stdout st1 @ [PrintLine ''Error: ChurchOfBeef is not a function'']))
             | None \<Rightarrow>
                 Exit 1 (stdout st1 @
                   [PrintLine ''Error: no ChurchOfBeef() entry point function found'']))))"

subsection \<open>Native integer semantics, for comparison\<close>

text \<open>
  What Go defines for \<^verbatim>\<open>int64\<close>, on mathematical integers: the arithmetic operators
  compute the exact result and keep its low 64 bits in two's complement; the quotient is
  truncated towards zero and the remainder satisfies \<open>x = (x / y) * y + x % y\<close>; the
  comparisons are those of the integers.
\<close>

definition wrap64 :: "int \<Rightarrow> int" where
  "wrap64 k = (k + 2 ^ 63) mod 2 ^ 64 - 2 ^ 63"

definition truncated_quotient :: "int \<Rightarrow> int \<Rightarrow> int" where
  "truncated_quotient x y = (if (x < 0) = (y < 0) then \<bar>x\<bar> div \<bar>y\<bar> else - (\<bar>x\<bar> div \<bar>y\<bar>))"

definition native_arith :: "string \<Rightarrow> int \<Rightarrow> int \<Rightarrow> int" where
  "native_arith operator x y =
     (if operator = ''+'' then wrap64 (x + y)
      else if operator = ''-'' then wrap64 (x - y)
      else if operator = ''*'' then wrap64 (x * y)
      else if operator = ''/'' then wrap64 (truncated_quotient x y)
      else wrap64 (x - truncated_quotient x y * y))"

definition native_compare :: "string \<Rightarrow> int \<Rightarrow> int \<Rightarrow> bool" where
  "native_compare operator x y =
     (if operator = ''<'' then x < y
      else if operator = ''>'' then x > y
      else if operator = ''<='' then x \<le> y
      else if operator = ''>='' then x \<ge> y
      else if operator = ''=='' then x = y
      else x \<noteq> y)"

definition arithmetic_operators :: "string set" where
  "arithmetic_operators = {''+'', ''-'', ''*'', ''/'', ''%''}"

definition comparison_operators :: "string set" where
  "comparison_operators = {''<'', ''>'', ''<='', ''>='', ''=='', ''!=''}"

subsection \<open>Concrete programs\<close>

text \<open>
  A token with its literal text at a line and column; the state of a process whose
  top-level environment (reference 0) has just been created; and the statement
  \<^verbatim>\<open>io.preach(v)\<close> on line \<open>l\<close>.
\<close>

definition at :: "string \<Rightarrow> int \<Rightarrow> int \<Rightarrow> token" where
  "at lit l c = \<lparr>Literal = lit, Line = l, Column = c\<rparr>"

definition top_level :: state where
  "top_level = snd (NewEnvironment (init_state []))"

definition preach_call :: "int \<Rightarrow> int64 \<Rightarrow> stmt" where
  "preach_call l v =
     ExpressionStatement
       (FunctionCall (at ''('' l 12)
          (MemberAccessExpression (Identifier (at ''io'' l 3) ''io'') ''preach'')
          [IntegerLiteral v])"

text \<open>
  The top level after \<^verbatim>\<open>praise f(a, b): serve 7 beef\<close>, and after \<^verbatim>\<open>prep c = true\<close>
  (before and after the loop \<^verbatim>\<open>feast while c: c = false beef\<close> has run).
\<close>

definition f_body :: "stmt list" where
  "f_body = [ReturnStatement (IntegerLiteral 7)]"

definition with_f :: state where
  "with_f = \<lparr>envs = [\<lparr>store = [(''f'', Function 3 [''a'', ''b''] f_body 0)], outer = None\<rparr>],
             next_addr = 4, stdout = [], stdin = []\<rparr>"

definition with_c :: state where
  "with_c = \<lparr>envs = [\<lparr>store = [(''c'', TRUE)], outer = None\<rparr>],
             next_addr = 3, stdout = [], stdin = []\<rparr>"

definition c_cleared :: state where
  "c_cleared = \<lparr>envs = [\<lparr>store = [(''c'', FALSE)], outer = None\<rparr>],
             next_addr = 3, stdout = [], stdin = []\<rparr>"

definition c_loop_cond :: expr where
  "c_loop_cond = Identifier (at ''c'' 2 13) ''c''"

definition c_loop_body :: "stmt list" where
  "c_loop_body = [AssignmentStatement ''c'' (BooleanLiteral False)]"

section \<open>Properties\<close>

subsection \<open>Identity of the singletons\<close>

lemma ref_eq_singletons:
  "ref_eq TRUE TRUE" "ref_eq FALSE FALSE" "ref_eq NULL NULL"
  "\<not> ref_eq TRUE FALSE" "\<not> ref_eq FALSE TRUE" "\<not> ref_eq TRUE NULL" "\<not> ref_eq NULL TRUE"
  "\<not> ref_eq FALSE NULL" "\<not> ref_eq NULL FALSE"
  by (simp_all add: ref_eq_def TRUE_def FALSE_def NULL_def)

lemma singletons_distinct: "TRUE \<noteq> FALSE" "TRUE \<noteq> NULL" "FALSE \<noteq> NULL"
  by (simp_all add: TRUE_def FALSE_def NULL_def)

subsection \<open>Prefix \<open>!\<close> and truthiness\<close>

text \<open>
  C9. For every runtime value \<open>x\<close> (the \<^verbatim>\<open>nil\<close> interface included), prefix \<open>!\<close> yields
  one of the two Boolean singletons; it yields \<open>TRUE\<close> exactly when \<open>x\<close> is the
  \<open>FALSE\<close> or the \<open>NULL\<close> singleton, which are exactly the values that are not truthy;
  the integer 0 and the empty string are negated to \<open>FALSE\<close>; and the truthiness of
  \<open>!!x\<close> is the truthiness of \<open>x\<close>.
\<close>

theorem evalBangOperator_truthiness:
  "(evalBangOperator x = TRUE \<or> evalBangOperator x = FALSE) \<and>
   (evalBangOperator x = TRUE \<longleftrightarrow> ref_eq x FALSE \<or> ref_eq x NULL) \<and>
   (isTruthy x \<longleftrightarrow> \<not> (ref_eq x FALSE \<or> ref_eq x NULL)) \<and>
   (isTruthy (evalBangOperator x) \<longleftrightarrow> \<not> isTruthy x) \<and>
   (isTruthy (evalBangOperator (evalBangOperator x)) \<longleftrightarrow> isTruthy x) \<and>
   evalBangOperator (Integer a 0) = FALSE \<and> evalBangOperator (String a []) = FALSE"
proof -
  have sel: "ref_eq x TRUE \<Longrightarrow> \<not> ref_eq x FALSE \<and> \<not> ref_eq x NULL"
    by (auto simp: ref_eq_def TRUE_def FALSE_def NULL_def)
  have bang: "evalBangOperator x = (if ref_eq x FALSE \<or> ref_eq x NULL then TRUE else FALSE)"
    using sel by (auto simp: evalBangOperator_def)
  have truthy: "isTruthy x \<longleftrightarrow> \<not> (ref_eq x FALSE \<or> ref_eq x NULL)"
    by (auto simp: isTruthy_def)
  have tT: "isTruthy TRUE" and tF: "\<not> isTruthy FALSE"
    by (simp_all add: isTruthy_def ref_eq_singletons)
  have lit: "evalBangOperator (Integer a 0) = FALSE" "evalBangOperator (String a []) = FALSE"
    by (simp_all add: evalBangOperator_def ref_eq_def TRUE_def FALSE_def NULL_def)
  show ?thesis
    using bang truthy tT tF lit singletons_distinct
    by (auto simp: evalBangOperator_def ref_eq_singletons)
qed

theorem evalBangOperator_truthiness_witness:
  "evalBangOperator (Integer 7 0) = FALSE \<and> isTruthy (Integer 7 0) \<and>
   isTruthy (evalBangOperator (evalBangOperator (Integer 7 0)))"
  using evalBangOperator_truthiness [of "Integer 7 0" 7]
  by (simp add: ref_eq_def TRUE_def FALSE_def NULL_def evalBangOperator_def isTruthy_def)

subsection \<open>Infix operators\<close>

text \<open>
  C10. On two String operands \<open>==\<close> and \<open>!=\<close> compare the contents, whatever the two
  addresses: \<open>==\<close> gives \<open>TRUE\<close> for equal contents (also at distinct addresses) and
  \<open>FALSE\<close> for different contents (also at one address), \<open>!=\<close> the opposite. Any
  operator other than \<open>+\<close>, \<open>==\<close> and \<open>!=\<close> gives a new Error object with the message
  \<open>unknown operator: STRING op STRING\<close> at the operator's position.
\<close>

theorem string_infix_by_value:
  "evalInfixExpression tok ''=='' (String a s) (String b t) st
     = Done (if s = t then TRUE else FALSE, st) \<and>
   evalInfixExpression tok ''!='' (String a s) (String b t) st
     = Done (if s = t then FALSE else TRUE, st) \<and>
   evalStringInfixExpression tok ''=='' (String a s) (String b t) st
     = Done (if s = t then TRUE else FALSE, st) \<and>
   evalStringInfixExpression tok ''!='' (String a s) (String b t) st
     = Done (if s = t then FALSE else TRUE, st) \<and>
   TRUE \<noteq> FALSE \<and>
   (operator \<noteq> ''+'' \<and> operator \<noteq> ''=='' \<and> operator \<noteq> ''!='' \<longrightarrow>
      evalStringInfixExpression tok operator (String a s) (String b t) st
        = Done (Error (next_addr st) (''unknown operator: STRING '' @ operator @ '' STRING'')
                  (Line tok) (Column tok) [],
                st\<lparr>next_addr := Suc (next_addr st)\<rparr>) \<and>
      evalInfixExpression tok operator (String a s) (String b t) st
        = Done (Error (next_addr st) (''unknown operator: STRING '' @ operator @ '' STRING'')
                  (Line tok) (Column tok) [],
                st\<lparr>next_addr := Suc (next_addr st)\<rparr>))"
  by (simp add: evalInfixExpression_def evalStringInfixExpression_def
      nativeBoolToBooleanObject_def unknown_operator_def newError_def new_addr_def
      singletons_distinct)

theorem string_infix_by_value_witness:
  "evalInfixExpression (at ''=='' 1 5) ''=='' (String 10 ''a'') (String 11 ''a'') (init_state [])
     = Done (Boolean 0 True, init_state []) \<and>
   evalInfixExpression (at ''=='' 1 5) ''=='' (String 10 ''a'') (String 10 ''b'') (init_state [])
     = Done (Boolean 1 False, init_state []) \<and>
   evalInfixExpression (at ''!='' 1 5) ''!='' (String 10 ''a'') (String 11 ''a'') (init_state [])
     = Done (Boolean 1 False, init_state []) \<and>
   evalInfixExpression (at ''!='' 1 5) ''!='' (String 10 ''a'') (String 10 ''b'') (init_state [])
     = Done (Boolean 0 True, init_state []) \<and>
   evalInfixExpression (at ''-'' 1 5) ''-'' (String 10 ''a'') (String 11 ''a'') (init_state [])
     = Done (Error 3 ''unknown operator: STRING - STRING'' 1 5 [],
             (init_state [])\<lparr>next_addr := 4\<rparr>)"
  using
    string_infix_by_value [of "at ''=='' 1 5" 10 "''a''" 11 "''a''" "init_state []" "''-''"]
    string_infix_by_value [of "at ''=='' 1 5" 10 "''a''" 10 "''b''" "init_state []" "''-''"]
    string_infix_by_value [of "at ''!='' 1 5" 10 "''a''" 11 "''a''" "init_state []" "''-''"]
    string_infix_by_value [of "at ''!='' 1 5" 10 "''a''" 10 "''b''" "init_state []" "''-''"]
    string_infix_by_value [of "at ''-'' 1 5" 10 "''a''" 11 "''a''" "init_state []" "''-''"]
  by (simp add: init_state_def at_def TRUE_def FALSE_def)

text \<open>
  C5. \<open>5 + true\<close> evaluates to a new Error object whose message is exactly
  \<open>type mismatch: INTEGER + BOOLEAN\<close>, at the operator's position. For operands of
  different types and an operator other than \<open>==\<close> and \<open>!=\<close> the result is the error
  \<open>type mismatch: T1 op T2\<close>. For operands that are not both integers and not both
  strings, \<open>==\<close> gives \<open>TRUE\<close> when the two references are the same and \<open>FALSE\<close>
  otherwise, and \<open>!=\<close> the opposite: never an Error. So the singletons compare as
  their truth values do, two function objects are equal exactly when they are one object
  (whatever their contents), and an integer never equals a string.
\<close>

theorem infix_type_mismatch:
  "Eval_expr (Suc (Suc n))
        (InfixExpression tok (IntegerLiteral 5) ''+'' (BooleanLiteral True)) env st
      = Done (Error (Suc (next_addr st)) ''type mismatch: INTEGER + BOOLEAN''
                (Line tok) (Column tok) [],
              st\<lparr>next_addr := Suc (Suc (next_addr st))\<rparr>) \<and>
   (Type left = Some lt \<and> Type right = Some rt \<and> lt \<noteq> rt \<and>
    operator \<noteq> ''=='' \<and> operator \<noteq> ''!='' \<longrightarrow>
      evalInfixExpression tok operator left right st
        = Done (Error (next_addr st) (''type mismatch: '' @ lt @ '' '' @ operator @ '' '' @ rt)
                  (Line tok) (Column tok) [],
                st\<lparr>next_addr := Suc (next_addr st)\<rparr>)) \<and>
   (Type left = Some lt \<and> Type right = Some rt \<and>
    \<not> (lt = ''INTEGER'' \<and> rt = ''INTEGER'') \<and> \<not> (lt = ''STRING'' \<and> rt = ''STRING'') \<longrightarrow>
      evalInfixExpression tok ''=='' left right st
        = Done (if ref_eq left right then TRUE else FALSE, st) \<and>
      evalInfixExpression tok ''!='' left right st
        = Done (if ref_eq left right then FALSE else TRUE, st)) \<and>
   TRUE \<noteq> FALSE \<and>
   evalInfixExpression tok ''=='' TRUE TRUE st = Done (TRUE, st) \<and>
   evalInfixExpression tok ''=='' FALSE FALSE st = Done (TRUE, st) \<and>
   evalInfixExpression tok ''=='' NULL NULL st = Done (TRUE, st) \<and>
   evalInfixExpression tok ''=='' TRUE FALSE st = Done (FALSE, st) \<and>
   evalInfixExpression tok ''=='' FALSE NULL st = Done (FALSE, st) \<and>
   evalInfixExpression tok ''!='' TRUE TRUE st = Done (FALSE, st) \<and>
   evalInfixExpression tok ''!='' TRUE FALSE st = Done (TRUE, st) \<and>
   evalInfixExpression tok ''=='' (Function a ps body e) (Function b ps body e) st
     = Done (if a = b then TRUE else FALSE, st) \<and>
   evalInfixExpression tok ''!='' (Function a ps body e) (Function b ps body e) st
     = Done (if a = b then FALSE else TRUE, st) \<and>
   evalInfixExpression tok ''=='' (Integer a v) (String b s) st = Done (FALSE, st) \<and>
   evalInfixExpression tok ''!='' (Integer a v) (String b s) st = Done (TRUE, st)"
proof -
  have five: "Eval_expr (Suc (Suc n))
        (InfixExpression tok (IntegerLiteral 5) ''+'' (BooleanLiteral True)) env st
      = Done (Error (Suc (next_addr st)) ''type mismatch: INTEGER + BOOLEAN''
                (Line tok) (Column tok) [],
              st\<lparr>next_addr := Suc (Suc (next_addr st))\<rparr>)"
    by (simp add: new_Integer_def new_addr_def isError_def nativeBoolToBooleanObject_def TRUE_def
        evalInfixExpression_def newError_def)
  have mismatch: "Type left = Some lt \<and> Type right = Some rt \<and> lt \<noteq> rt \<and>
    operator \<noteq> ''=='' \<and> operator \<noteq> ''!='' \<longrightarrow>
      evalInfixExpression tok operator left right st
        = Done (Error (next_addr st) (''type mismatch: '' @ lt @ '' '' @ operator @ '' '' @ rt)
                  (Line tok) (Column tok) [],
                st\<lparr>next_addr := Suc (next_addr st)\<rparr>)"
    by (auto simp: evalInfixExpression_def newError_def new_addr_def)
  have fallback: "Type left = Some lt \<and> Type right = Some rt \<and>
    \<not> (lt = ''INTEGER'' \<and> rt = ''INTEGER'') \<and> \<not> (lt = ''STRING'' \<and> rt = ''STRING'') \<longrightarrow>
      evalInfixExpression tok ''=='' left right st
        = Done (if ref_eq left right then TRUE else FALSE, st) \<and>
      evalInfixExpression tok ''!='' left right st
        = Done (if ref_eq left right then FALSE else TRUE, st)"
    by (auto simp: evalInfixExpression_def nativeBoolToBooleanObject_def)
  have singletons:
    "evalInfixExpression tok ''=='' TRUE TRUE st = Done (TRUE, st)"
    "evalInfixExpression tok ''=='' FALSE FALSE st = Done (TRUE, st)"
    "evalInfixExpression tok ''=='' NULL NULL st = Done (TRUE, st)"
    "evalInfixExpression tok ''=='' TRUE FALSE st = Done (FALSE, st)"
    "evalInfixExpression tok ''=='' FALSE NULL st = Done (FALSE, st)"
    "evalInfixExpression tok ''!='' TRUE TRUE st = Done (FALSE, st)"
    "evalInfixExpression tok ''!='' TRUE FALSE st = Done (TRUE, st)"
    by (simp_all add: evalInfixExpression_def nativeBoolToBooleanObject_def ref_eq_def
        TRUE_def FALSE_def NULL_def)
  have closures:
    "evalInfixExpression tok ''=='' (Function a ps body e) (Function b ps body e) st
       = Done (if a = b then TRUE else FALSE, st)"
    "evalInfixExpression tok ''!='' (Function a ps body e) (Function b ps body e) st
       = Done (if a = b then FALSE else TRUE, st)"
    by (simp_all add: evalInfixExpression_def nativeBoolToBooleanObject_def ref_eq_def)
  have mixed:
    "evalInfixExpression tok ''=='' (Integer a v) (String b s) st = Done (FALSE, st)"
    "evalInfixExpression tok ''!='' (Integer a v) (String b s) st = Done (TRUE, st)"
    by (simp_all add: evalInfixExpression_def nativeBoolToBooleanObject_def ref_eq_def)
  have distinct: "TRUE \<noteq> FALSE"
    by (rule singletons_distinct)
  show ?thesis
    by (intro conjI five mismatch fallback singletons closures mixed distinct)
qed

theorem infix_type_mismatch_witness:
  "Type (String 7 ''a'') = Some ''STRING'' \<and> Type (Integer 8 1) = Some ''INTEGER'' \<and>
   evalInfixExpression (at ''+'' 10 17) ''+'' (String 7 ''a'') (Integer 8 1) (init_state [])
     = Done (Error 3 ''type mismatch: STRING + INTEGER'' 10 17 [],
             (init_state [])\<lparr>next_addr := 4\<rparr>) \<and>
   evalInfixExpression (at ''=='' 10 17) ''=='' (String 7 ''a'') (Integer 8 1) (init_state [])
     = Done (Boolean 1 False, init_state []) \<and>
   Type (Boolean 0 True) = Some ''BOOLEAN'' \<and>
   evalInfixExpression (at ''=='' 10 17) ''=='' (Boolean 0 True) (Boolean 0 True) (init_state [])
     = Done (Boolean 0 True, init_state []) \<and>
   evalInfixExpression (at ''!='' 10 17) ''!='' (Boolean 0 True) (Boolean 0 True) (init_state [])
     = Done (Boolean 1 False, init_state [])"
  using
    infix_type_mismatch [where n = 0 and tok = "at ''+'' 10 17" and env = 0
      and st = "init_state []" and left = "String 7 ''a''" and lt = "''STRING''"
      and right = "Integer 8 1" and rt = "''INTEGER''" and operator = "''+''"]
    infix_type_mismatch [where n = 0 and tok = "at ''=='' 10 17" and env = 0
      and st = "init_state []" and left = "String 7 ''a''" and lt = "''STRING''"
      and right = "Integer 8 1" and rt = "''INTEGER''" and operator = "''+''"]
    infix_type_mismatch [where n = 0 and tok = "at ''=='' 10 17" and env = 0
      and st = "init_state []" and left = "Boolean 0 True" and lt = "''BOOLEAN''"
      and right = "Boolean 0 True" and rt = "''BOOLEAN''" and operator = "''+''"]
    infix_type_mismatch [where n = 0 and tok = "at ''!='' 10 17" and env = 0
      and st = "init_state []" and left = "Boolean 0 True" and lt = "''BOOLEAN''"
      and right = "Boolean 0 True" and rt = "''BOOLEAN''" and operator = "''+''"]
  by (simp add: init_state_def at_def ref_eq_def TRUE_def FALSE_def)

subsection \<open>Integer arithmetic\<close>

lemma wrap64_signed_take_bit: "wrap64 k = signed_take_bit 63 k"
  by (simp add: wrap64_def signed_take_bit_eq_take_bit_shift take_bit_eq_mod)

lemma sint_of_int64: "sint (word_of_int k :: int64) = wrap64 k"
  by (simp add: wrap64_signed_take_bit sint_sbintrunc')

lemma sint_add64: "sint (a + b :: int64) = wrap64 (sint a + sint b)"
  by (simp add: wrap64_signed_take_bit sint_word_ariths)

lemma sint_diff64: "sint (a - b :: int64) = wrap64 (sint a - sint b)"
  by (simp add: wrap64_signed_take_bit sint_word_ariths)

lemma sint_mult64: "sint (a * b :: int64) = wrap64 (sint a * sint b)"
  by (simp add: wrap64_signed_take_bit sint_word_ariths)

lemma sdiv_truncated: "x sdiv y = truncated_quotient x y" for x y :: int
  by (auto simp: signed_divide_int_def truncated_quotient_def sgn_if)

lemma smod_truncated: "x smod y = x - truncated_quotient x y * y" for x y :: int
  using sdiv_mult_smod_eq [of x y] by (simp add: sdiv_truncated [symmetric])

lemma sint_quo64: "sint (int64_quo a b) = wrap64 (truncated_quotient (sint a) (sint b))"
  by (simp add: int64_quo_def sint_of_int64 sdiv_truncated)

lemma sint_rem64:
  "sint (int64_rem a b) = wrap64 (sint a - truncated_quotient (sint a) (sint b) * sint b)"
  by (simp only: int64_rem_def smod_truncated sint_of_int64)

lemma sint_eq_iff64: "sint a = sint b \<longleftrightarrow> a = b" for a b :: int64
  by (auto dest: signed_word_eqI)

text \<open>
  C7. For all 64-bit integers \<open>a\<close> and \<open>b\<close> with \<open>b \<noteq> 0\<close>, an infix expression on two
  Integer operands is evaluated by \<open>evalIntegerInfixExpression\<close>; for \<open>+ - * / %\<close> it
  returns a new Integer whose signed value is the native result on the signed values of the
  operands (exact result, low 64 bits, quotient truncated towards zero), and for
  \<open>< > <= >= == !=\<close> it returns \<open>TRUE\<close> when the integer comparison of the signed
  values holds and \<open>FALSE\<close> when it does not.
\<close>

theorem integer_infix_native:
  assumes "b \<noteq> 0"
  shows "evalInfixExpression tok operator (Integer p a) (Integer q b) st
           = evalIntegerInfixExpression tok operator (Integer p a) (Integer q b) st \<and>
         (operator \<in> arithmetic_operators \<longrightarrow>
            (\<exists>v. evalIntegerInfixExpression tok operator (Integer p a) (Integer q b) st
                   = Done (Integer (next_addr st) v, st\<lparr>next_addr := Suc (next_addr st)\<rparr>) \<and>
                 sint v = native_arith operator (sint a) (sint b))) \<and>
         (operator \<in> comparison_operators \<longrightarrow>
            evalIntegerInfixExpression tok operator (Integer p a) (Integer q b) st
              = Done (if native_compare operator (sint a) (sint b) then TRUE else FALSE, st)) \<and>
         TRUE \<noteq> FALSE"
proof (intro conjI impI)
  show "evalInfixExpression tok operator (Integer p a) (Integer q b) st
           = evalIntegerInfixExpression tok operator (Integer p a) (Integer q b) st"
    by (simp add: evalInfixExpression_def)
next
  assume "operator \<in> arithmetic_operators"
  then consider "operator = ''+''" | "operator = ''-''" | "operator = ''*''"
    | "operator = ''/''" | "operator = ''%''"
    by (auto simp: arithmetic_operators_def)
  then show "\<exists>v. evalIntegerInfixExpression tok operator (Integer p a) (Integer q b) st
                   = Done (Integer (next_addr st) v, st\<lparr>next_addr := Suc (next_addr st)\<rparr>) \<and>
                 sint v = native_arith operator (sint a) (sint b)"
    using assms
    by cases
      (simp_all add: evalIntegerInfixExpression_def new_Integer_def new_addr_def native_arith_def
        sint_add64 sint_diff64 sint_mult64 sint_quo64 sint_rem64)
next
  assume "operator \<in> comparison_operators"
  then consider "operator = ''<''" | "operator = ''>''" | "operator = ''<=''"
    | "operator = ''>=''" | "operator = ''==''" | "operator = ''!=''"
    by (auto simp: comparison_operators_def)
  then show "evalIntegerInfixExpression tok operator (Integer p a) (Integer q b) st
              = Done (if native_compare operator (sint a) (sint b) then TRUE else FALSE, st)"
    by cases
      (simp_all add: evalIntegerInfixExpression_def native_compare_def word_sless_alt word_sle_eq
        sint_eq_iff64 nativeBoolToBooleanObject_def)
next
  show "TRUE \<noteq> FALSE"
    by (rule singletons_distinct)
qed

theorem integer_infix_native_witness:
  "(2 :: int64) \<noteq> 0 \<and> ''/'' \<in> arithmetic_operators \<and> ''%'' \<in> arithmetic_operators \<and>
   ''<'' \<in> comparison_operators \<and> ''>'' \<in> comparison_operators \<and>
   ''=='' \<in> comparison_operators \<and> ''!='' \<in> comparison_operators \<and>
   (\<exists>v. evalIntegerInfixExpression (at ''/'' 1 4) ''/'' (Integer 10 (- 7)) (Integer 11 2) top_level
          = Done (Integer 3 v, top_level\<lparr>next_addr := 4\<rparr>) \<and> sint v = - 3) \<and>
   (\<exists>v. evalIntegerInfixExpression (at ''%'' 1 4) ''%'' (Integer 10 (- 7)) (Integer 11 2) top_level
          = Done (Integer 3 v, top_level\<lparr>next_addr := 4\<rparr>) \<and> sint v = - 1) \<and>
   evalIntegerInfixExpression (at ''<'' 1 4) ''<'' (Integer 10 (- 7)) (Integer 11 2) top_level
     = Done (Boolean 0 True, top_level) \<and>
   evalIntegerInfixExpression (at ''>'' 1 4) ''>'' (Integer 10 (- 7)) (Integer 11 2) top_level
     = Done (Boolean 1 False, top_level) \<and>
   evalIntegerInfixExpression (at ''=='' 1 4) ''=='' (Integer 10 (- 7)) (Integer 11 2) top_level
     = Done (Boolean 1 False, top_level) \<and>
   evalIntegerInfixExpression (at ''!='' 1 4) ''!='' (Integer 10 (- 7)) (Integer 11 2) top_level
     = Done (Boolean 0 True, top_level)"
proof -
  have h: "(2 :: int64) \<noteq> 0" by simp
  have t: "next_addr top_level = 3"
    by (simp add: top_level_def NewEnvironment_def init_state_def)
  show ?thesis
    using h
      integer_infix_native [OF h, of "at ''/'' 1 4" "''/''" 10 "- 7" 11 top_level]
      integer_infix_native [OF h, of "at ''%'' 1 4" "''%''" 10 "- 7" 11 top_level]
      integer_infix_native [OF h, of "at ''<'' 1 4" "''<''" 10 "- 7" 11 top_level]
      integer_infix_native [OF h, of "at ''>'' 1 4" "''>''" 10 "- 7" 11 top_level]
      integer_infix_native [OF h, of "at ''=='' 1 4" "''==''" 10 "- 7" 11 top_level]
      integer_infix_native [OF h, of "at ''!='' 1 4" "''!=''" 10 "- 7" 11 top_level]
    by (simp add: t arithmetic_operators_def comparison_operators_def native_arith_def
        native_compare_def wrap64_def truncated_quotient_def TRUE_def FALSE_def)
qed

subsection \<open>Function calls\<close>

lemma bind_res_Done_iff:
  "bind_res r f = Done y \<longleftrightarrow> (\<exists>x. r = Done x \<and> f x = Done y)"
  by (cases r) simp_all

lemma bind_parameters_short:
  "i \<le> length args \<Longrightarrow> length args < i + length params \<Longrightarrow>
     bind_parameters params i args fnEnv st = Panic index_out_of_range"
  by (induction params arbitrary: i st) simp_all

lemma isError_Function [simp]: "\<not> isError (Function a ps body e)"
  by (simp add: isError_def)

lemma bind_parameters_safe:
  "i + length params \<le> length args \<Longrightarrow> \<exists>st'. bind_parameters params i args fnEnv st = Done st'"
  by (induction params arbitrary: i st) simp_all

lemma evalExpressions_length:
  "evalExpressions n exps env result st = Done (vs, st') \<Longrightarrow>
     length vs = length result + length exps"
proof (induction exps arbitrary: n result st)
  case Nil
  then show ?case by simp
next
  case (Cons exp exps)
  show ?case
  proof (cases n)
    case 0
    with Cons.prems show ?thesis by simp
  next
    case (Suc m)
    with Cons.prems obtain evaluated st1 where
      "evalExpressions m exps env (result @ [evaluated]) st1 = Done (vs, st')"
      by (auto simp: bind_res_Done_iff)
    from Cons.IH [OF this] show ?thesis by simp
  qed
qed

text \<open>
  C6, as first stated (a call with fewer arguments than parameters always fails with an
  index out of range), does not hold: \<^verbatim>\<open>f(zz)\<close> with \<open>f\<close> of two parameters and
  \<open>zz\<close> unbound has one argument, which evaluates to an Error; \<^verbatim>\<open>evalFunctionCall\<close>
  returns that Error before the binding loop, and nothing panics.
\<close>

theorem single_error_argument_returned_before_binding:
  "Eval_expr 5 (Identifier (at ''f'' 4 1) ''f'') 0 with_f
     = Done (Function 3 [''a'', ''b''] f_body 0, with_f) \<and>
   length [Identifier (at ''zz'' 4 3) ''zz''] < length [''a'', ''b''] \<and>
   Eval_expr 6 (FunctionCall (at ''('' 4 2) (Identifier (at ''f'' 4 1) ''f'')
        [Identifier (at ''zz'' 4 3) ''zz'']) 0 with_f
     = Done (Error 4 ''identifier not found: zz'' 4 3 [], with_f\<lparr>next_addr := 5\<rparr>) \<and>
   Eval_expr 6 (FunctionCall (at ''('' 4 2) (Identifier (at ''f'' 4 1) ''f'')
        [Identifier (at ''zz'' 4 3) ''zz'']) 0 with_f
     \<noteq> Panic ''index out of range''"
  by code_simp

text \<open>
  C6, amended. There is no arity check. When the callee evaluates to a user function and
  the arguments have been evaluated, there is one value per argument, and: a call whose
  only argument evaluated to an Error returns that Error, before any binding; every other
  call with fewer arguments than parameters panics with an index out of range in the
  binding loop and returns no Error; and every other call with at least as many arguments
  as parameters gets through the binding loop and goes on to evaluate the body.
\<close>

theorem call_arity_unchecked:
  assumes callee: "Eval_expr n f env st = Done (Function a parameters body fenv, st1)"
    and evaluated: "evalExpressions n arguments env [] st1 = Done (args, st2)"
  shows "length args = length arguments \<and>
    (length args = 1 \<and> isError (args ! 0) \<longrightarrow>
       Eval_expr (Suc n) (FunctionCall tok f arguments) env st = Done (args ! 0, st2)) \<and>
    (\<not> (length args = 1 \<and> isError (args ! 0)) \<and> length arguments < length parameters \<longrightarrow>
       bind_parameters parameters 0 args (fst (NewEnclosedEnvironment fenv st2))
           (snd (NewEnclosedEnvironment fenv st2)) = Panic ''index out of range'' \<and>
       Eval_expr (Suc n) (FunctionCall tok f arguments) env st = Panic ''index out of range'') \<and>
    (\<not> (length args = 1 \<and> isError (args ! 0)) \<and> length parameters \<le> length arguments \<longrightarrow>
       (\<exists>st4. bind_parameters parameters 0 args (fst (NewEnclosedEnvironment fenv st2))
                 (snd (NewEnclosedEnvironment fenv st2)) = Done st4 \<and>
              Eval_expr (Suc n) (FunctionCall tok f arguments) env st
                = bind_res (Eval_stmt n (BlockStatement body)
                              (fst (NewEnclosedEnvironment fenv st2)) st4)
                    (\<lambda>(result, st5).
                       if isError result then Done (result, st5)
                       else (case result of
                               ReturnValue ra v \<Rightarrow> Done (v, st5)
                             | _ \<Rightarrow> Done (NULL, st5)))))"
proof -
  have len: "length args = length arguments"
    using evalExpressions_length [OF evaluated] by simp
  have early: "length args = 1 \<and> isError (args ! 0) \<longrightarrow>
       Eval_expr (Suc n) (FunctionCall tok f arguments) env st = Done (args ! 0, st2)"
    using callee evaluated by simp
  have call: "Eval_expr (Suc n) (FunctionCall tok f arguments) env st
      = bind_res (bind_parameters parameters 0 args (fst (NewEnclosedEnvironment fenv st2))
                    (snd (NewEnclosedEnvironment fenv st2)))
          (\<lambda>st4. bind_res (Eval_stmt n (BlockStatement body)
                              (fst (NewEnclosedEnvironment fenv st2)) st4)
                    (\<lambda>(result, st5).
                       if isError result then Done (result, st5)
                       else (case result of
                               ReturnValue ra v \<Rightarrow> Done (v, st5)
                             | _ \<Rightarrow> Done (NULL, st5))))"
    if "\<not> (length args = 1 \<and> isError (args ! 0))"
    using callee evaluated that
    by (auto simp add: split_beta Let_def)
  have short: "bind_parameters parameters 0 args (fst (NewEnclosedEnvironment fenv st2))
           (snd (NewEnclosedEnvironment fenv st2)) = Panic ''index out of range'' \<and>
       Eval_expr (Suc n) (FunctionCall tok f arguments) env st = Panic ''index out of range''"
    if other: "\<not> (length args = 1 \<and> isError (args ! 0))"
      and few: "length arguments < length parameters"
  proof -
    have panic: "bind_parameters parameters 0 args (fst (NewEnclosedEnvironment fenv st2))
           (snd (NewEnclosedEnvironment fenv st2)) = Panic ''index out of range''"
      using len few by (simp add: bind_parameters_short index_out_of_range_def [symmetric])
    then show ?thesis
      by (simp only: call [OF other] bind_res.simps simp_thms)
  qed
  have enough: "\<exists>st4. bind_parameters parameters 0 args (fst (NewEnclosedEnvironment fenv st2))
                 (snd (NewEnclosedEnvironment fenv st2)) = Done st4 \<and>
              Eval_expr (Suc n) (FunctionCall tok f arguments) env st
                = bind_res (Eval_stmt n (BlockStatement body)
                              (fst (NewEnclosedEnvironment fenv st2)) st4)
                    (\<lambda>(result, st5).
                       if isError result then Done (result, st5)
                       else (case result of
                               ReturnValue ra v \<Rightarrow> Done (v, st5)
                             | _ \<Rightarrow> Done (NULL, st5)))"
    if other: "\<not> (length args = 1 \<and> isError (args ! 0))"
      and many: "length parameters \<le> length arguments"
  proof -
    obtain st4 where safe: "bind_parameters parameters 0 args
        (fst (NewEnclosedEnvironment fenv st2)) (snd (NewEnclosedEnvironment fenv st2)) = Done st4"
      using len many bind_parameters_safe [of 0 parameters args] by auto
    then show ?thesis
      by (simp only: call [OF other] bind_res.simps) simp
  qed
  show ?thesis
    using len early short enough by blast
qed

theorem call_arity_unchecked_witness:
  "Eval_expr 5 (Identifier (at ''f'' 4 1) ''f'') 0 with_f
     = Done (Function 3 [''a'', ''b''] f_body 0, with_f) \<and>
   evalExpressions 5 [IntegerLiteral 1] 0 [] with_f
     = Done ([Integer 4 1], with_f\<lparr>next_addr := 5\<rparr>) \<and>
   \<not> (length [Integer 4 1] = 1 \<and> isError ([Integer 4 1] ! 0)) \<and>
   length [IntegerLiteral 1] < length [''a'', ''b''] \<and>
   Eval_expr 6 (FunctionCall (at ''('' 4 2) (Identifier (at ''f'' 4 1) ''f'') [IntegerLiteral 1])
       0 with_f = Panic ''index out of range'' \<and>
   evalExpressions 5 [Identifier (at ''zz'' 4 3) ''zz''] 0 [] with_f
     = Done ([Error 4 ''identifier not found: zz'' 4 3 []], with_f\<lparr>next_addr := 5\<rparr>) \<and>
   isError ([Error 4 ''identifier not found: zz'' 4 3 []] ! 0) \<and>
   Eval_expr 6 (FunctionCall (at ''('' 4 2) (Identifier (at ''f'' 4 1) ''f'')
        [Identifier (at ''zz'' 4 3) ''zz'']) 0 with_f
     = Done (Error 4 ''identifier not found: zz'' 4 3 [], with_f\<lparr>next_addr := 5\<rparr>) \<and>
   evalExpressions 5 [IntegerLiteral 1, IntegerLiteral 2] 0 [] with_f
     = Done ([Integer 4 1, Integer 5 2], with_f\<lparr>next_addr := 6\<rparr>) \<and>
   length [''a'', ''b''] \<le> length [IntegerLiteral 1, IntegerLiteral 2] \<and>
   (\<exists>st4. bind_parameters [''a'', ''b''] 0 [Integer 4 1, Integer 5 2]
            (fst (NewEnclosedEnvironment 0 (with_f\<lparr>next_addr := 6\<rparr>)))
            (snd (NewEnclosedEnvironment 0 (with_f\<lparr>next_addr := 6\<rparr>))) = Done st4)"
proof -
  have callee: "Eval_expr 5 (Identifier (at ''f'' 4 1) ''f'') 0 with_f
     = Done (Function 3 [''a'', ''b''] f_body 0, with_f)"
    by code_simp
  have evaluated: "evalExpressions 5 [IntegerLiteral 1] 0 [] with_f
     = Done ([Integer 4 1], with_f\<lparr>next_addr := 5\<rparr>)"
    by code_simp
  have evaluated1: "evalExpressions 5 [Identifier (at ''zz'' 4 3) ''zz''] 0 [] with_f
     = Done ([Error 4 ''identifier not found: zz'' 4 3 []], with_f\<lparr>next_addr := 5\<rparr>)"
    by code_simp
  have evaluated2: "evalExpressions 5 [IntegerLiteral 1, IntegerLiteral 2] 0 [] with_f
     = Done ([Integer 4 1, Integer 5 2], with_f\<lparr>next_addr := 6\<rparr>)"
    by code_simp
  have no_error: "\<not> isError (Integer 4 1)" and an_error:
    "isError (Error 4 ''identifier not found: zz'' 4 3 [])"
    by (simp_all add: isError_def)
  show ?thesis
    using callee evaluated evaluated1 evaluated2 no_error an_error
      call_arity_unchecked [OF callee evaluated, of "at ''('' 4 2"]
      call_arity_unchecked [OF callee evaluated1, of "at ''('' 4 2"]
      call_arity_unchecked [OF callee evaluated2, of "at ''('' 4 2"]
    by auto
qed

subsection \<open>While loops\<close>

lemma while_value_is_last_body:
  "evalWhileLoop n cond body env result st = Done (v, st') \<Longrightarrow>
     (v = result \<and> (\<exists>k c. Eval_expr k cond env st = Done (c, st') \<and> \<not> isTruthy c)) \<or>
     (\<exists>m st_a st_b. Eval_stmt m (BlockStatement body) env st_a = Done (v, st_b) \<and>
        ((v \<noteq> Nil \<and> Type v = Some ''RETURN_VALUE'' \<and> st' = st_b) \<or>
         (\<exists>k c. Eval_expr k cond env st_b = Done (c, st') \<and> \<not> isTruthy c)))"
proof (induction n arbitrary: result st)
  case 0
  then show ?case by simp
next
  case (Suc n)
  from Suc.prems obtain c st1 where
    c: "Eval_expr n cond env st = Done (c, st1)"
    and rest: "(if \<not> isTruthy c then Done (result, st1)
       else bind_res (Eval_stmt n (BlockStatement body) env st1) (\<lambda>(result', st2).
         if result' \<noteq> Nil \<and> Type result' = Some ''RETURN_VALUE'' then Done (result', st2)
         else evalWhileLoop n cond body env result' st2)) = Done (v, st')"
    by (auto simp: bind_res_Done_iff)
  show ?case
  proof (cases "isTruthy c")
    case False
    with rest c show ?thesis by auto
  next
    case True
    with rest obtain r st2 where
      b: "Eval_stmt n (BlockStatement body) env st1 = Done (r, st2)"
      and rest': "(if r \<noteq> Nil \<and> Type r = Some ''RETURN_VALUE'' then Done (r, st2)
         else evalWhileLoop n cond body env r st2) = Done (v, st')"
      by (auto simp: bind_res_Done_iff)
    show ?thesis
    proof (cases "r \<noteq> Nil \<and> Type r = Some ''RETURN_VALUE''")
      case True
      with rest' have "r = v" "st2 = st'" by simp_all
      with True b show ?thesis by blast
    next
      case False
      with rest' have "evalWhileLoop n cond body env r st2 = Done (v, st')" by simp
      from Suc.IH [OF this] b show ?thesis by blast
    qed
  qed
qed

text \<open>
  C8. A while loop whose condition is false at the start returns \<open>NULL\<close> in the state
  the condition left: the body is not evaluated. When the body evaluates to a return value,
  the loop returns it at once, still wrapped. When the body evaluates to anything else, the
  loop goes on with that value as its result so far, and returns it when the condition
  turns false. So the value of a loop that returns is \<open>NULL\<close> with the condition false
  at the start, or the value of a body evaluation that either was a return value or was
  followed at once by the false condition: the last one.
\<close>

theorem while_loop_value:
  "(Eval_expr n cond env st = Done (c, st1) \<and> \<not> isTruthy c \<longrightarrow>
      Eval_stmt (Suc (Suc n)) (WhileLoop cond body) env st = Done (NULL, st1) \<and>
      evalWhileLoop (Suc n) cond body env result st = Done (result, st1)) \<and>
   (Eval_expr n cond env st = Done (c, st1) \<and> isTruthy c \<and>
    Eval_stmt n (BlockStatement body) env st1 = Done (ReturnValue a v, st2) \<longrightarrow>
      evalWhileLoop (Suc n) cond body env result st = Done (ReturnValue a v, st2) \<and>
      Eval_stmt (Suc (Suc n)) (WhileLoop cond body) env st = Done (ReturnValue a v, st2)) \<and>
   (Eval_expr n cond env st = Done (c, st1) \<and> isTruthy c \<and>
    Eval_stmt n (BlockStatement body) env st1 = Done (r, st2) \<and>
    \<not> (r \<noteq> Nil \<and> Type r = Some ''RETURN_VALUE'') \<longrightarrow>
      evalWhileLoop (Suc n) cond body env result st = evalWhileLoop n cond body env r st2) \<and>
   (Eval_stmt (Suc n) (WhileLoop cond body) env st = Done (w, st') \<longrightarrow>
      (w = NULL \<and> (\<exists>k c. Eval_expr k cond env st = Done (c, st') \<and> \<not> isTruthy c)) \<or>
      (\<exists>m st_a st_b. Eval_stmt m (BlockStatement body) env st_a = Done (w, st_b) \<and>
         ((w \<noteq> Nil \<and> Type w = Some ''RETURN_VALUE'' \<and> st' = st_b) \<or>
          (\<exists>k c. Eval_expr k cond env st_b = Done (c, st') \<and> \<not> isTruthy c))))"
proof -
  have last: "Eval_stmt (Suc n) (WhileLoop cond body) env st = Done (w, st') \<longrightarrow>
      (w = NULL \<and> (\<exists>k c. Eval_expr k cond env st = Done (c, st') \<and> \<not> isTruthy c)) \<or>
      (\<exists>m st_a st_b. Eval_stmt m (BlockStatement body) env st_a = Done (w, st_b) \<and>
         ((w \<noteq> Nil \<and> Type w = Some ''RETURN_VALUE'' \<and> st' = st_b) \<or>
          (\<exists>k c. Eval_expr k cond env st_b = Done (c, st') \<and> \<not> isTruthy c)))"
    using while_value_is_last_body [of n cond body env NULL st w st'] by simp
  show ?thesis
    by (intro conjI last) simp_all
qed

theorem while_loop_value_witness:
  "Eval_expr 5 (BooleanLiteral False) 0 with_c = Done (FALSE, with_c) \<and> \<not> isTruthy FALSE \<and>
   Eval_stmt 7 (WhileLoop (BooleanLiteral False) c_loop_body) 0 with_c = Done (NULL, with_c) \<and>
   Eval_expr 5 (BooleanLiteral True) 0 with_c = Done (TRUE, with_c) \<and> isTruthy TRUE \<and>
   Eval_stmt 5 (BlockStatement [ReturnStatement (BooleanLiteral False)]) 0 with_c
     = Done (ReturnValue 3 FALSE, with_c\<lparr>next_addr := 4\<rparr>) \<and>
   Eval_stmt 7 (WhileLoop (BooleanLiteral True) [ReturnStatement (BooleanLiteral False)]) 0 with_c
     = Done (ReturnValue 3 FALSE, with_c\<lparr>next_addr := 4\<rparr>) \<and>
   Eval_expr 5 c_loop_cond 0 with_c = Done (TRUE, with_c) \<and>
   Eval_stmt 5 (BlockStatement c_loop_body) 0 with_c = Done (FALSE, c_cleared) \<and>
   \<not> (FALSE \<noteq> Nil \<and> Type FALSE = Some ''RETURN_VALUE'') \<and>
   evalWhileLoop 6 c_loop_cond c_loop_body 0 NULL with_c
     = evalWhileLoop 5 c_loop_cond c_loop_body 0 FALSE c_cleared \<and>
   Eval_stmt 7 (WhileLoop c_loop_cond c_loop_body) 0 with_c = Done (FALSE, c_cleared) \<and>
   (\<exists>m st_a st_b. Eval_stmt m (BlockStatement c_loop_body) 0 st_a = Done (FALSE, st_b) \<and>
      (\<exists>k c. Eval_expr k c_loop_cond 0 st_b = Done (c, c_cleared) \<and> \<not> isTruthy c))"
proof -
  have falsy: "Eval_expr 5 (BooleanLiteral False) 0 with_c = Done (FALSE, with_c)"
    by code_simp
  have nt: "\<not> isTruthy FALSE" and t: "isTruthy TRUE"
    by (simp_all add: isTruthy_def ref_eq_def TRUE_def FALSE_def NULL_def)
  have truthy: "Eval_expr 5 (BooleanLiteral True) 0 with_c = Done (TRUE, with_c)"
    by code_simp
  have returns: "Eval_stmt 5 (BlockStatement [ReturnStatement (BooleanLiteral False)]) 0 with_c
     = Done (ReturnValue 3 FALSE, with_c\<lparr>next_addr := 4\<rparr>)"
    by code_simp
  have cond: "Eval_expr 5 c_loop_cond 0 with_c = Done (TRUE, with_c)"
    by code_simp
  have body: "Eval_stmt 5 (BlockStatement c_loop_body) 0 with_c = Done (FALSE, c_cleared)"
    by code_simp
  have no_return: "\<not> (FALSE \<noteq> Nil \<and> Type FALSE = Some ''RETURN_VALUE'')"
    by (simp add: FALSE_def)
  have whole: "Eval_stmt 7 (WhileLoop c_loop_cond c_loop_body) 0 with_c = Done (FALSE, c_cleared)"
    by code_simp
  have distinct: "FALSE \<noteq> NULL"
    by (simp add: FALSE_def NULL_def)
  note w1 = while_loop_value [where n = 5 and cond = "BooleanLiteral False" and env = 0
      and st = with_c and c = FALSE and ?st1.0 = with_c and body = c_loop_body and result = NULL]
  note w2 = while_loop_value [where n = 5 and cond = "BooleanLiteral True" and env = 0
      and st = with_c and c = TRUE and ?st1.0 = with_c
      and body = "[ReturnStatement (BooleanLiteral False)]" and result = NULL
      and a = 3 and v = FALSE and ?st2.0 = "with_c\<lparr>next_addr := 4\<rparr>"]
  note w3 = while_loop_value [where n = 5 and cond = c_loop_cond and env = 0
      and st = with_c and c = TRUE and ?st1.0 = with_c and body = c_loop_body and result = NULL
      and r = FALSE and ?st2.0 = c_cleared]
  note w4 = while_loop_value [where n = 6 and cond = c_loop_cond and env = 0
      and st = with_c and body = c_loop_body and w = FALSE and st' = c_cleared]
  show ?thesis
    using falsy nt t truthy returns cond body no_return whole distinct w1 w2 w3 w4
    by (simp add: FALSE_def)
qed

subsection \<open>Errors that do not propagate\<close>

text \<open>
  Where the evaluator does test \<^verbatim>\<open>isError\<close>: the operand of a prefix expression, both
  operands of an infix expression (the right one is not evaluated after an Error on the
  left), the callee of a call, the only argument of a call with one argument, and each
  statement of a block and of a program.
\<close>

lemma error_propagates_where_tested:
  assumes "isError e"
  shows
    "Eval_expr n r env st = Done (e, st1) \<Longrightarrow>
       Eval_expr (Suc n) (PrefixExpression tok operator r) env st = Done (e, st1)"
    "Eval_expr n l env st = Done (e, st1) \<Longrightarrow>
       Eval_expr (Suc n) (InfixExpression tok l operator r) env st = Done (e, st1)"
    "Eval_expr n l env st = Done (v, st1) \<Longrightarrow> \<not> isError v \<Longrightarrow>
     Eval_expr n r env st1 = Done (e, st2) \<Longrightarrow>
       Eval_expr (Suc n) (InfixExpression tok l operator r) env st = Done (e, st2)"
    "Eval_expr n f env st = Done (e, st1) \<Longrightarrow>
       Eval_expr (Suc n) (FunctionCall tok f arguments) env st = Done (e, st1)"
    "Eval_expr n f env st = Done (v, st1) \<Longrightarrow> \<not> isError v \<Longrightarrow>
     evalExpressions n arguments env [] st1 = Done ([e], st2) \<Longrightarrow>
       Eval_expr (Suc n) (FunctionCall tok f arguments) env st = Done (e, st2)"
    "Eval_stmt n s env st = Done (e, st1) \<Longrightarrow>
       evalBlockStatement (Suc n) (s # ss) env result st = Done (e, st1)"
    "Eval_stmt n s env st = Done (e, st1) \<Longrightarrow>
       evalProgram n (s # ss) env result st = Done (e, st1)"
  using assms by simp_all

text \<open>
  C1 (the code departs from the claim). An Error as the condition of an if statement is
  truthy and the consequence is evaluated; an Error as the object of a member access
  gives \<open>NULL\<close>; an Error as the condition of a while loop is truthy and the body is
  evaluated. In all three the Error is lost (the identifier \<open>x\<close> is unbound). In the
  last program the body of the loop evaluates to an Error in its first turn (\<open>zz\<close> is
  unbound); the loop goes on, and its value is that of the second turn.
\<close>

theorem error_swallowed_by_if_member_while:
  "Eval_stmt 10 (IfStatement (Identifier (at ''x'' 1 4) ''x'')
        [ExpressionStatement (IntegerLiteral 1)] None) 0 top_level
     = Done (Integer 4 1, top_level\<lparr>next_addr := 5\<rparr>) \<and>
   Eval_expr 10 (MemberAccessExpression (Identifier (at ''x'' 1 1) ''x'') ''y'') 0 top_level
     = Done (NULL, top_level\<lparr>next_addr := 4\<rparr>) \<and>
   Eval_stmt 10 (WhileLoop (Identifier (at ''x'' 1 13) ''x'') [ReturnStatement (IntegerLiteral 1)])
        0 top_level
     = Done (ReturnValue 5 (Integer 4 1), top_level\<lparr>next_addr := 6\<rparr>) \<and>
   evalProgram 20
     [VariableDeclaration ''c'' (BooleanLiteral True),
      VariableDeclaration ''d'' (BooleanLiteral True),
      WhileLoop (Identifier (at ''c'' 3 13) ''c'')
        [IfStatement (Identifier (at ''d'' 4 6) ''d'')
           [AssignmentStatement ''d'' (BooleanLiteral False),
            ExpressionStatement (Identifier (at ''zz'' 6 5) ''zz'')]
           (Some [AssignmentStatement ''c'' (BooleanLiteral False)])]]
     0 Nil top_level
     = Done (FALSE,
         \<lparr>envs = [\<lparr>store = [(''c'', FALSE), (''d'', FALSE)], outer = None\<rparr>],
          next_addr = 4, stdout = [], stdin = []\<rparr>)"
  by code_simp

text \<open>
  C2 (the code departs from the claim). In \<^verbatim>\<open>f(zz, io.preach(1))\<close> with \<open>zz\<close> unbound
  and \<open>f\<close> of two parameters, the first argument is an Error; the second argument is
  still evaluated (it prints), the Error is bound to the parameter \<open>a\<close>, the body runs and
  the call returns 7.
\<close>

theorem error_argument_of_two_ignored:
  "evalProgram 10
     [WrangleStatement ''io'',
      FunctionDeclaration ''f'' [''a'', ''b''] [ReturnStatement (IntegerLiteral 7)],
      ExpressionStatement
        (FunctionCall (at ''('' 4 2) (Identifier (at ''f'' 4 1) ''f'')
           [Identifier (at ''zz'' 4 3) ''zz'',
            FunctionCall (at ''('' 4 16)
              (MemberAccessExpression (Identifier (at ''io'' 4 7) ''io'') ''preach'')
              [IntegerLiteral 1]])]
     0 Nil top_level
   = Done (Integer 9 7,
       \<lparr>envs =
          [\<lparr>store =
              [(''io'', Module 3 ''io'' [(''preach'', Builtin 4 Preach), (''input'', Builtin 5 Input)]),
               (''f'', Function 6 [''a'', ''b''] [ReturnStatement (IntegerLiteral 7)] 0)],
            outer = None\<rparr>,
           \<lparr>store = [(''a'', Error 7 ''identifier not found: zz'' 4 3 []), (''b'', Null 2)],
            outer = Some 0\<rparr>],
        next_addr = 11, stdout = [PrintlnInspect (Integer 8 1)], stdin = []\<rparr>)"
  by code_simp

text \<open>
  C3 (the code departs from the claim). \<^verbatim>\<open>main\<close> drops the value of both evaluations.
  With the error \<open>5 + true\<close> inside the entry point, between two prints, the process
  prints the first line only, reports nothing and exits with status 0. With the same error
  at the top level, after the declaration of the entry point, the entry point still runs,
  nothing is reported and the status is 0.
\<close>

theorem main_drops_runtime_error:
  "main 10 []
     [WrangleStatement ''io'',
      FunctionDeclaration ''ChurchOfBeef'' []
        [preach_call 3 1,
         ExpressionStatement
           (InfixExpression (at ''+'' 4 5) (IntegerLiteral 5) ''+'' (BooleanLiteral True)),
         preach_call 5 2]] []
     = Exit 0 [PrintlnInspect (Integer 7 1)] \<and>
   main 10 []
     [WrangleStatement ''io'',
      FunctionDeclaration ''ChurchOfBeef'' [] [preach_call 3 1],
      ExpressionStatement
        (InfixExpression (at ''+'' 5 3) (IntegerLiteral 5) ''+'' (BooleanLiteral True)),
      preach_call 6 2] []
     = Exit 0 [PrintlnInspect (Integer 9 1)]"
  by code_simp

text \<open>
  C4 (the code departs from the claim). \<^verbatim>\<open>prep x = y\<close> with \<open>y\<close> unbound binds \<open>x\<close>
  to the Error object; an assignment \<^verbatim>\<open>x = y\<close> does the same.
\<close>

theorem declaration_binds_error:
  "Eval_stmt 10 (VariableDeclaration ''x'' (Identifier (at ''y'' 1 10) ''y'')) 0 top_level
     = Done (Error 3 ''identifier not found: y'' 1 10 [],
         \<lparr>envs = [\<lparr>store = [(''x'', Error 3 ''identifier not found: y'' 1 10 [])], outer = None\<rparr>],
          next_addr = 4, stdout = [], stdin = []\<rparr>) \<and>
   Eval_stmt 10 (AssignmentStatement ''x'' (Identifier (at ''y'' 1 5) ''y'')) 0 top_level
     = Done (Error 3 ''identifier not found: y'' 1 5 [],
         \<lparr>envs = [\<lparr>store = [(''x'', Error 3 ''identifier not found: y'' 1 5 [])], outer = None\<rparr>],
          next_addr = 4, stdout = [], stdin = []\<rparr>) \<and>
   Get [\<lparr>store = [(''x'', Error 3 ''identifier not found: y'' 1 10 [])], outer = None\<rparr>] 0 ''x''
     = Some (Error 3 ''identifier not found: y'' 1 10 []) \<and>
   isError (Error 3 ''identifier not found: y'' 1 10 [])"
  by code_simp

end
